theory Spec2Isabelle
  imports Complex_Main
begin

section \<open>JavaScript numbers\<close>

text \<open>
  The front end computes with JavaScript numbers. A number is modelled as an exact real,
  or one of the three special values that the code can produce or has to guard against:
  \<open>NaN\<close> (what \<open>parseFloat\<close> and \<open>parseInt\<close> return on text that is not a number),
  \<open>Infinity\<close> (written in \<open>Sidebar.tsx\<close>) and \<open>-Infinity\<close> (\<open>Math.max()\<close> of nothing).
  The rounding of IEEE-754 double arithmetic is not modelled: products such as
  \<open>d.mu * 100\<close> are exact here.
\<close>

datatype number = NaN | NegInfinity | Num real | PosInfinity

text \<open>The relational operators of JavaScript: every comparison with \<open>NaN\<close> is false.\<close>

fun js_lt :: "number \<Rightarrow> number \<Rightarrow> bool" where
  "js_lt NaN _ = False"
| "js_lt _ NaN = False"
| "js_lt _ NegInfinity = False"
| "js_lt NegInfinity _ = True"
| "js_lt PosInfinity _ = False"
| "js_lt _ PosInfinity = True"
| "js_lt (Num a) (Num b) = (a < b)"

definition isNaN :: "number \<Rightarrow> bool" where
  "isNaN x = (x = NaN)"

definition js_gt :: "number \<Rightarrow> number \<Rightarrow> bool" where
  "js_gt a b = js_lt b a"

definition js_ge :: "number \<Rightarrow> number \<Rightarrow> bool" where
  "js_ge a b = (\<not> isNaN a \<and> \<not> isNaN b \<and> \<not> js_lt a b)"

definition js_le :: "number \<Rightarrow> number \<Rightarrow> bool" where
  "js_le a b = js_ge b a"

text \<open>\<open>Math.min(a, b)\<close>: \<open>NaN\<close> as soon as one argument is.\<close>

definition Math_min :: "number \<Rightarrow> number \<Rightarrow> number" where
  "Math_min a b = (if isNaN a \<or> isNaN b then NaN else if js_lt b a then b else a)"

section \<open>The data model of \<open>types.ts\<close>\<close>

datatype SimulationModel =
    MU_Analytical_rerun
  | MU_Resampling
  | ImpBias_Analytical_rerun
  | ImpBias_Resampling

record Thresholds =
  min_thr :: number
  des :: number
  opt :: number

record AppState =
  simulationModel :: SimulationModel
  filePath :: "string option"
  analyteName :: "string option"
  decimalPlaces :: number
  cdls :: "number list"
  agreementThresholds :: Thresholds
  biologicalVariation :: number
  sampleSize :: "number option"
  maxImprecision :: number
  maxBias :: number
  maxMu :: number
  stepSizeMu :: number
  stepSizeImpBias :: number
  useCustomBoundaries :: bool

section \<open>\<open>App.tsx\<close>: the initial state\<close>

definition initialState :: AppState where
  "initialState = \<lparr>
     simulationModel = MU_Analytical_rerun,
     filePath = None,
     analyteName = None,
     decimalPlaces = Num 0,
     cdls = [Num 0],
     agreementThresholds = \<lparr> min_thr = Num 90, des = Num 95, opt = Num 99 \<rparr>,
     biologicalVariation = Num 0,
     sampleSize = None,
     maxImprecision = Num 33.3,
     maxBias = Num 35,
     maxMu = Num 33.1,
     stepSizeMu = Num 0.1,
     stepSizeImpBias = Num 1.0,
     useCustomBoundaries = False \<rparr>"

record SimulationPoint =
  mu :: real
  bias :: real
  agreement :: real
  sensitivity :: real
  specificity :: real
  agreement_cat :: string
  sensitivity_cat :: string
  specificity_cat :: string
  sublevel_agreement :: "real list"
  sublevel_sensitivity :: "real list"
  sublevel_specificity :: "real list"

record SimulationResult =
  mu_data :: "SimulationPoint list"
  names :: "string list"

text \<open>
  The numbers of a \<open>SimulationResult\<close> arrive through JSON, which has neither \<open>NaN\<close> nor
  the infinities, so they are plain reals.
\<close>

section \<open>\<open>Results.tsx\<close>: the APS limits table and the plots\<close>

text \<open>
  \<open>Math.max\<close> and \<open>Math.min\<close> over the spread arguments of an array, and \<open>Math.abs\<close>.
  The limit that a JavaScript engine puts on the number of spread arguments is not
  modelled.
\<close>

definition Math_max :: "number \<Rightarrow> number \<Rightarrow> number" where
  "Math_max a b = (if isNaN a \<or> isNaN b then NaN else if js_lt a b then b else a)"

definition Math_max_of :: "number list \<Rightarrow> number" where
  "Math_max_of xs = fold (\<lambda>x acc. Math_max acc x) xs NegInfinity"

definition Math_min_of :: "number list \<Rightarrow> number" where
  "Math_min_of xs = fold (\<lambda>x acc. Math_min acc x) xs PosInfinity"

fun Math_abs :: "number \<Rightarrow> number" where
  "Math_abs NaN = NaN"
| "Math_abs NegInfinity = PosInfinity"
| "Math_abs PosInfinity = PosInfinity"
| "Math_abs (Num r) = Num \<bar>r\<bar>"

text \<open>
  \<open>x.toFixed(1)\<close>: the sign, then the integer \<open>n\<close> with \<open>n / 10\<close> nearest to \<open>|x|\<close> (the
  larger one of two), written in decimal with a point before its last digit. This is
  the decimal branch of the built-in, taken below \<open>10^21\<close>; the percentages of a grid are
  far below that.
\<close>

fun digits :: "nat \<Rightarrow> string" where
  "digits n =
     (if n < 10 then [''0123456789'' ! n]
      else digits (n div 10) @ [''0123456789'' ! (n mod 10)])"

definition toFixed1 :: "number \<Rightarrow> string" where
  "toFixed1 x =
     (case x of
        NaN \<Rightarrow> ''NaN''
      | PosInfinity \<Rightarrow> ''Infinity''
      | NegInfinity \<Rightarrow> ''-Infinity''
      | Num r \<Rightarrow>
          (let s = (if r < 0 then ''-'' else '''');
               n = nat \<lfloor>\<bar>r\<bar> * 10 + 1 / 2\<rfloor>
           in s @ digits (n div 10) @ ''.'' @ digits (n mod 10)))"

datatype metric = Agreement | Sensitivity | Specificity

datatype limit_type = Mu | Bias_pos | Bias_neg

text \<open>\<open>xs?.[i]\<close> is \<open>undefined\<close> beyond the end of the array, and \<open>val ?? 0\<close> reads that as 0.\<close>

definition at_index :: "real list \<Rightarrow> nat \<Rightarrow> real option" where
  "at_index xs i = (if i < length xs then Some (xs ! i) else None)"

definition nullish0 :: "real option \<Rightarrow> real" where
  "nullish0 val = (case val of None \<Rightarrow> 0 | Some v \<Rightarrow> v)"

text \<open>\<open>d[metric]\<close>, and the sublevel entry selected by the nested conditional.\<close>

definition overall :: "metric \<Rightarrow> SimulationPoint \<Rightarrow> real" where
  "overall metric d =
     (case metric of Agreement \<Rightarrow> agreement d | Sensitivity \<Rightarrow> sensitivity d
      | Specificity \<Rightarrow> specificity d)"

definition sublevel :: "metric \<Rightarrow> SimulationPoint \<Rightarrow> nat \<Rightarrow> real option" where
  "sublevel metric d levelIndex =
     (case metric of
        Agreement \<Rightarrow> at_index (sublevel_agreement d) levelIndex
      | Sensitivity \<Rightarrow> at_index (sublevel_sensitivity d) levelIndex
      | Specificity \<Rightarrow> at_index (sublevel_specificity d) levelIndex)"

text \<open>
  The percentage that \<open>getLimit\<close> compares with the threshold: \<open>(val ?? 0) * 100\<close>.
  The array \<open>validPoints\<close> of \<open>getLimit\<close> is a function of its own here, and the
  property \<open>agreementThresholds\<close> of the component is the argument \<open>thresholds\<close>.
\<close>

definition metric_pct :: "metric \<Rightarrow> nat option \<Rightarrow> SimulationPoint \<Rightarrow> real" where
  "metric_pct metric levelIndex d =
     nullish0 (case levelIndex of Some i \<Rightarrow> sublevel metric d i | None \<Rightarrow> Some (overall metric d))
       * 100"

definition validPoints ::
  "SimulationResult \<Rightarrow> metric \<Rightarrow> nat option \<Rightarrow> number \<Rightarrow> SimulationPoint list" where
  "validPoints results metric levelIndex threshold =
     filter (\<lambda>d. js_ge (Num (metric_pct metric levelIndex d)) threshold) (mu_data results)"

definition getLimit ::
  "SimulationResult \<Rightarrow> metric \<Rightarrow> nat option \<Rightarrow> number \<Rightarrow> limit_type \<Rightarrow> string" where
  "getLimit results metric levelIndex threshold type =
     (let valid = validPoints results metric levelIndex threshold
      in if length valid = 0 then ''NO''
         else case type of
           Mu \<Rightarrow>
             (let maxMu = Math_max_of (map (\<lambda>d. Num (mu d * 100)) valid)
              in if js_gt maxMu (Num 33) then ''NA'' else toFixed1 maxMu)
         | Bias_pos \<Rightarrow>
             (let maxBias = Math_max_of (map (\<lambda>d. Num (bias d * 100)) valid)
              in if js_gt maxBias (Num 33) then ''NA'' else toFixed1 maxBias)
         | Bias_neg \<Rightarrow>
             (let minBias = Math_min_of (map (\<lambda>d. Num (bias d * 100)) valid)
              in if js_gt (Math_abs minBias) (Num 33) then ''NA'' else toFixed1 minBias))"

text \<open>
  The colours of \<open>renderScatterPlot\<close> for the imprecision and bias plot: \<open>z_pct\<close> is the
  metric of each grid point as a percentage, \<open>colors\<close> its bucket under the thresholds.
\<close>

definition z_pct :: "SimulationResult \<Rightarrow> metric \<Rightarrow> nat option \<Rightarrow> real list" where
  "z_pct results metric levelIndex =
     map (\<lambda>v. v * 100)
       (map (\<lambda>d. case levelIndex of Some i \<Rightarrow> nullish0 (sublevel metric d i)
                 | None \<Rightarrow> overall metric d)
          (mu_data results))"

definition color :: "Thresholds \<Rightarrow> bool \<Rightarrow> real \<Rightarrow> string" where
  "color thresholds usePastelColors val =
     (if usePastelColors then
        (if js_ge (Num val) (opt thresholds) then ''#76C7C0''
         else if js_ge (Num val) (des thresholds) then ''#5DADE2''
         else if js_ge (Num val) (min_thr thresholds) then ''#F4D03F''
         else ''#EC7063'')
      else
        (if js_ge (Num val) (opt thresholds) then ''rgb(0, 0, 255)''
         else if js_ge (Num val) (des thresholds) then ''rgb(0, 176, 0)''
         else if js_ge (Num val) (min_thr thresholds) then ''rgb(166, 0, 0)''
         else ''rgb(200, 200, 200)''))"

definition colors ::
  "SimulationResult \<Rightarrow> Thresholds \<Rightarrow> metric \<Rightarrow> nat option \<Rightarrow> bool \<Rightarrow> string list" where
  "colors results thresholds metric levelIndex usePastelColors =
     map (color thresholds usePastelColors) (z_pct results metric levelIndex)"

text \<open>The categories of \<open>renderCombinedPlot\<close>, and the indices that each trace draws.\<close>

definition category :: "Thresholds \<Rightarrow> nat \<Rightarrow> SimulationPoint \<Rightarrow> string" where
  "category thresholds levelIndex d =
     (let sens = nullish0 (at_index (sublevel_sensitivity d) levelIndex) * 100;
          spec = nullish0 (at_index (sublevel_specificity d) levelIndex) * 100;
          min = min_thr thresholds;
          sensPass = js_ge (Num sens) min;
          specPass = js_ge (Num spec) min
      in if sensPass \<and> specPass then ''Sensitivity & Specificity''
         else if sensPass then ''Sensitivity''
         else if specPass then ''Specificity''
         else ''Other'')"

definition categories :: "SimulationResult \<Rightarrow> Thresholds \<Rightarrow> nat \<Rightarrow> string list" where
  "categories results thresholds levelIndex =
     map (category thresholds levelIndex) (mu_data results)"

definition uniqueCategories :: "string list" where
  "uniqueCategories = [''Sensitivity & Specificity'', ''Sensitivity'', ''Specificity'', ''Other'']"

definition indices :: "string list \<Rightarrow> string \<Rightarrow> nat list" where
  "indices cats cat = filter (\<lambda>i. cats ! i = cat) [0..<length cats]"

section \<open>\<open>Sidebar.tsx\<close>: the change handlers\<close>

text \<open>
  A handler reads the state it was rendered with (\<open>state\<close>) and hands React an updater
  that is applied to the state of that moment (\<open>prev\<close>). Both are arguments; a handler
  that runs on the rendered state is \<open>addCDL s s\<close>.
\<close>

definition addCDL :: "AppState \<Rightarrow> AppState \<Rightarrow> AppState" where
  "addCDL state prev =
     (if length (cdls state) < 7 then prev\<lparr>cdls := cdls prev @ [Num 0]\<rparr> else prev)"

definition removeCDL :: "AppState \<Rightarrow> AppState \<Rightarrow> AppState" where
  "removeCDL state prev =
     (if length (cdls state) > 1 then prev\<lparr>cdls := butlast (cdls prev)\<rparr> else prev)"

text \<open>
  The boundary inputs. \<open>val\<close> is \<open>parseFloat(e.target.value)\<close>: a number, or \<open>NaN\<close>
  when the field holds no number.
\<close>

definition onChange_maxMu :: "number \<Rightarrow> AppState \<Rightarrow> AppState" where
  "onChange_maxMu val prev =
     (if \<not> isNaN val then prev\<lparr>maxMu := Math_min val (Num 33.3)\<rparr>
      else prev\<lparr>maxMu := Num 0\<rparr>)"

definition onChange_maxImprecision :: "number \<Rightarrow> AppState \<Rightarrow> AppState" where
  "onChange_maxImprecision val prev =
     (if \<not> isNaN val then prev\<lparr>maxImprecision := Math_min val (Num 33.3)\<rparr>
      else prev\<lparr>maxImprecision := Num 0\<rparr>)"

definition onChange_maxBias :: "number \<Rightarrow> AppState \<Rightarrow> AppState" where
  "onChange_maxBias val prev =
     (if \<not> isNaN val then prev\<lparr>maxBias := Math_min val (Num 100)\<rparr>
      else prev\<lparr>maxBias := Num 0\<rparr>)"

text \<open>
  \<open>dataCount || d\<close>: \<open>dataCount\<close> is \<open>null\<close> or the length of the loaded column, and
  both \<open>null\<close> and \<open>0\<close> are falsy.
\<close>

definition dataCount_or :: "nat option \<Rightarrow> number \<Rightarrow> number" where
  "dataCount_or dataCount d =
     (case dataCount of None \<Rightarrow> d | Some n \<Rightarrow> if n = 0 then d else Num (real n))"

text \<open>The sampling checkbox, and the sample-size input; \<open>val\<close> is \<open>parseInt(e.target.value)\<close>.\<close>

definition onChange_useSampling :: "bool \<Rightarrow> nat option \<Rightarrow> AppState \<Rightarrow> AppState" where
  "onChange_useSampling checked dataCount prev =
     prev\<lparr>sampleSize := (if checked then Some (dataCount_or dataCount (Num 1000)) else None)\<rparr>"

definition onChange_sampleSize :: "number \<Rightarrow> nat option \<Rightarrow> AppState \<Rightarrow> AppState" where
  "onChange_sampleSize val dataCount prev =
     (let max = dataCount_or dataCount PosInfinity
      in if \<not> isNaN val then prev\<lparr>sampleSize := Some (Math_min val max)\<rparr>
         else prev\<lparr>sampleSize := Some (Num 0)\<rparr>)"

text \<open>\<open>Number.isInteger\<close>; \<open>parseInt\<close> returns \<open>NaN\<close> or a number that satisfies it.\<close>

fun isInteger :: "number \<Rightarrow> bool" where
  "isInteger (Num r) = (of_int \<lfloor>r\<rfloor> = r)"
| "isInteger _ = False"

section \<open>\<open>App.tsx\<close>: running a simulation\<close>

record SimulationConfig =
  model :: SimulationModel
  data :: "real list"
  cdls_cfg :: "number list"
  decimal_places :: number
  agreement_thresholds :: "number list"
  cv_i :: "number option"
  sample_size :: "number option"
  max_imprecision :: "number option"
  max_bias :: "number option"
  max_mu :: "number option"
  step_size_mu :: "number option"
  step_size_imp_bias :: "number option"

text \<open>The object literal \<open>config\<close> of \<open>handleSimulate\<close> (its field \<open>cdls\<close> is \<open>cdls_cfg\<close>).\<close>

definition config :: "AppState \<Rightarrow> real list \<Rightarrow> SimulationConfig" where
  "config state d = \<lparr>
     model = simulationModel state,
     data = d,
     cdls_cfg = cdls state,
     decimal_places = decimalPlaces state,
     agreement_thresholds =
       [min_thr (agreementThresholds state), des (agreementThresholds state),
        opt (agreementThresholds state)],
     cv_i = (if js_gt (biologicalVariation state) (Num 0) then Some (biologicalVariation state)
             else None),
     sample_size = sampleSize state,
     max_imprecision = (if useCustomBoundaries state then Some (maxImprecision state) else None),
     max_bias = (if useCustomBoundaries state then Some (maxBias state) else None),
     max_mu = (if useCustomBoundaries state then Some (maxMu state) else None),
     step_size_mu = (if useCustomBoundaries state then Some (stepSizeMu state) else None),
     step_size_imp_bias =
       (if useCustomBoundaries state then Some (stepSizeImpBias state) else None) \<rparr>"

text \<open>
  What \<open>handleSimulate\<close> awaits is outside the front end: subscribing to the progress
  events, loading the column, and the simulation itself, which delivers progress
  payloads to the listener and then resolves or rejects. Each may reject (\<open>Inl\<close>).
\<close>

type_synonym error = string

record backend =
  listen :: "error + unit"
  load_column_data :: "string \<Rightarrow> string \<Rightarrow> error + real list"
  run_simulation_async :: "SimulationConfig \<Rightarrow> number list \<times> (error + SimulationResult)"

text \<open>
  \<open>handleSimulate\<close> is modelled by what it does to the outside, in order: the calls of the
  state setters, of \<open>console.error\<close>, \<open>alert\<close> and \<open>unlisten\<close>. A rejection of \<open>listen\<close>
  happens before the guarded block and ends the handler at once.
\<close>

datatype effect =
    SetIsSimulating bool
  | SetProgress number
  | SetOriginalData "real list"
  | SetResults SimulationResult
  | ConsoleError error
  | Alert error
  | Unlisten

definition handleSimulate :: "backend \<Rightarrow> AppState \<Rightarrow> effect list" where
  "handleSimulate be state =
     (case (filePath state, analyteName state) of
        (Some path, Some column) \<Rightarrow>
          if path = [] \<or> column = [] then []
          else [SetIsSimulating True, SetProgress (Num 0)] @
            (case listen be of
               Inl e \<Rightarrow> []
             | Inr u \<Rightarrow>
                 (case load_column_data be path column of
                    Inl e \<Rightarrow> [ConsoleError e, Alert e]
                  | Inr d \<Rightarrow>
                      SetOriginalData d #
                      (case run_simulation_async be (config state d) of
                         (payloads, Inl e) \<Rightarrow> map SetProgress payloads @ [ConsoleError e, Alert e]
                       | (payloads, Inr result) \<Rightarrow> map SetProgress payloads @ [SetResults result]))
                 @ [Unlisten, SetIsSimulating False])
      | _ \<Rightarrow> [])"

text \<open>The part of the state of \<open>App\<close> that the setters write.\<close>

record View =
  results :: "SimulationResult option"
  originalData :: "real list option"
  isSimulating :: bool
  progress :: number

fun apply_effect :: "effect \<Rightarrow> View \<Rightarrow> View" where
  "apply_effect (SetIsSimulating b) v = v\<lparr>isSimulating := b\<rparr>"
| "apply_effect (SetProgress p) v = v\<lparr>progress := p\<rparr>"
| "apply_effect (SetOriginalData d) v = v\<lparr>originalData := Some d\<rparr>"
| "apply_effect (SetResults r) v = v\<lparr>results := Some r\<rparr>"
| "apply_effect (ConsoleError e) v = v"
| "apply_effect (Alert e) v = v"
| "apply_effect Unlisten v = v"

definition run_effects :: "effect list \<Rightarrow> View \<Rightarrow> View" where
  "run_effects es v = fold apply_effect es v"

section \<open>The limit lookup and the buckets in the words of the specification\<close>

text \<open>
  The limit lookup as a filter followed by an extremum: the set of grid points that
  are kept, the extremum of the column, and the cutoff above which the table shows \<open>NA\<close>.
\<close>

definition kept :: "SimulationResult \<Rightarrow> metric \<Rightarrow> nat option \<Rightarrow> number \<Rightarrow> SimulationPoint set" where
  "kept r metric levelIndex t =
     Set.filter (\<lambda>d. js_ge (Num (metric_pct metric levelIndex d)) t) (set (mu_data r))"

definition extremum :: "limit_type \<Rightarrow> SimulationPoint set \<Rightarrow> real" where
  "extremum type ps =
     (case type of
        Mu \<Rightarrow> Max ((\<lambda>d. mu d * 100) ` ps)
      | Bias_pos \<Rightarrow> Max ((\<lambda>d. bias d * 100) ` ps)
      | Bias_neg \<Rightarrow> Min ((\<lambda>d. bias d * 100) ` ps))"

definition limit_as_specified ::
  "SimulationResult \<Rightarrow> metric \<Rightarrow> nat option \<Rightarrow> number \<Rightarrow> limit_type \<Rightarrow> string" where
  "limit_as_specified r metric levelIndex t type =
     (if kept r metric levelIndex t = {} then ''NO''
      else toFixed1 (Num (extremum type (kept r metric levelIndex t))))"

definition not_available :: "limit_type \<Rightarrow> real \<Rightarrow> bool" where
  "not_available type x = (case type of Mu \<Rightarrow> 33 < x | Bias_pos \<Rightarrow> 33 < x | Bias_neg \<Rightarrow> 33 < \<bar>x\<bar>)"

definition limit_with_cutoff ::
  "SimulationResult \<Rightarrow> metric \<Rightarrow> nat option \<Rightarrow> number \<Rightarrow> limit_type \<Rightarrow> string" where
  "limit_with_cutoff r metric levelIndex t type =
     (if kept r metric levelIndex t = {} then ''NO''
      else if not_available type (extremum type (kept r metric levelIndex t)) then ''NA''
      else toFixed1 (Num (extremum type (kept r metric levelIndex t))))"

text \<open>The four buckets of a metric, and the colour that each palette gives a bucket.\<close>

datatype bucket = Optimal | Desirable | Minimum | Below_min

definition bucket_color :: "bool \<Rightarrow> bucket \<Rightarrow> string" where
  "bucket_color usePastelColors b =
     (case b of
        Optimal \<Rightarrow> if usePastelColors then ''#76C7C0'' else ''rgb(0, 0, 255)''
      | Desirable \<Rightarrow> if usePastelColors then ''#5DADE2'' else ''rgb(0, 176, 0)''
      | Minimum \<Rightarrow> if usePastelColors then ''#F4D03F'' else ''rgb(166, 0, 0)''
      | Below_min \<Rightarrow> if usePastelColors then ''#EC7063'' else ''rgb(200, 200, 200)'')"

section \<open>Example inputs\<close>

text \<open>A state with a file and a column chosen, a result on display, and a back end whose
  simulation rejects after one progress event.\<close>

definition loaded_state :: AppState where
  "loaded_state = initialState\<lparr>filePath := Some ''data.csv'', analyteName := Some ''glucose''\<rparr>"

definition empty_result :: SimulationResult where
  "empty_result = \<lparr>mu_data = [], names = []\<rparr>"

definition failing_backend :: backend where
  "failing_backend = \<lparr>
     listen = Inr (),
     load_column_data = (\<lambda>path column. Inr [1, 2, 3]),
     run_simulation_async = (\<lambda>cfg. ([Num 50], Inl ''aborted'')) \<rparr>"

definition shown_view :: View where
  "shown_view = \<lparr>results = Some empty_result, originalData = None, isSimulating = False,
     progress = Num 0\<rparr>"

text \<open>
  Grid points for the examples: \<open>grid_point m b a\<close> has \<open>mu = m\<close>, \<open>bias = b\<close>, every metric
  equal to \<open>a\<close> and one decision limit; \<open>level_point b se sp\<close> has sensitivity \<open>se\<close> and
  specificity \<open>sp\<close> at its one decision limit.
\<close>

definition grid_point :: "real \<Rightarrow> real \<Rightarrow> real \<Rightarrow> SimulationPoint" where
  "grid_point m b a = \<lparr>mu = m, bias = b, agreement = a, sensitivity = a, specificity = a,
     agreement_cat = [], sensitivity_cat = [], specificity_cat = [],
     sublevel_agreement = [a], sublevel_sensitivity = [a], sublevel_specificity = [a]\<rparr>"

definition level_point :: "real \<Rightarrow> real \<Rightarrow> real \<Rightarrow> SimulationPoint" where
  "level_point b se sp = \<lparr>mu = 0.05, bias = b, agreement = 0.9, sensitivity = se,
     specificity = sp, agreement_cat = [], sensitivity_cat = [], specificity_cat = [],
     sublevel_agreement = [0.9], sublevel_sensitivity = [se], sublevel_specificity = [sp]\<rparr>"

text \<open>A sweep over the measurement uncertainty up to the default 33.1 %, a sweep over the
  bias up to the default 35 %, a grid whose only good point has a bias of -40 %, and a
  grid with one point in each category of the combined plot.\<close>

definition mu_sweep :: SimulationResult where
  "mu_sweep = \<lparr>mu_data = [grid_point 0 0 1, grid_point 0.12 0 0.97, grid_point 0.331 0 0.92],
     names = [''5'']\<rparr>"

definition bias_sweep :: SimulationResult where
  "bias_sweep = \<lparr>mu_data = [grid_point 0 (- 0.35) 0.93, grid_point 0 0 1, grid_point 0 0.35 0.94],
     names = [''5'']\<rparr>"

definition skewed_sweep :: SimulationResult where
  "skewed_sweep = \<lparr>mu_data = [grid_point 0 (- 0.4) 0.95, grid_point 0 0 0.8], names = [''5'']\<rparr>"

definition combined_grid :: SimulationResult where
  "combined_grid = \<lparr>mu_data = [level_point (- 0.1) 0.95 0.85, level_point 0 0.99 0.98,
       level_point 0.1 0.7 0.96, level_point 0.2 0.6 0.5],
     names = [''5'']\<rparr>"

section \<open>Properties\<close>

subsection \<open>The initial state\<close>

text \<open>
  C8. The initial application state carries the documented grid defaults:
  \<open>maxMu = 33.1\<close> and \<open>stepSizeMu = 0.1\<close> for the measurement-uncertainty variants,
  \<open>maxImprecision = 33.3\<close>, \<open>maxBias = 35\<close> and \<open>stepSizeImpBias = 1.0\<close> for the
  imprecision and bias variants, and the agreement thresholds 90, 95 and 99.
\<close>

theorem initialState_grid_defaults:
  "maxMu initialState = Num 33.1 \<and>
   stepSizeMu initialState = Num 0.1 \<and>
   maxImprecision initialState = Num 33.3 \<and>
   maxBias initialState = Num 35 \<and>
   stepSizeImpBias initialState = Num 1.0 \<and>
   min_thr (agreementThresholds initialState) = Num 90 \<and>
   des (agreementThresholds initialState) = Num 95 \<and>
   opt (agreementThresholds initialState) = Num 99"
  by (simp add: initialState_def)

subsection \<open>The simulation run\<close>

lemma results_fold_no_SetResults:
  "(\<forall>r. SetResults r \<notin> set es) \<Longrightarrow> results (fold apply_effect es v) = results v"
proof (induction es arbitrary: v)
  case Nil
  then show ?case by simp
next
  case (Cons e es)
  then show ?case by (cases e) auto
qed

lemma results_fold_SetProgress:
  "results (fold apply_effect (map SetProgress ps) v) = results v"
  by (rule results_fold_no_SetResults) auto

lemma SetResults_in_handleSimulate:
  assumes "SetResults r \<in> set (handleSimulate be state)"
  shows "\<exists>path column d payloads.
      filePath state = Some path \<and> analyteName state = Some column \<and>
      load_column_data be path column = Inr d \<and>
      run_simulation_async be (config state d) = (payloads, Inr r)"
proof -
  from assms obtain path column
    where pc: "filePath state = Some path" "analyteName state = Some column"
    by (cases "filePath state"; cases "analyteName state") (auto simp: handleSimulate_def)
  from assms pc obtain d where d: "load_column_data be path column = Inr d"
    by (cases "load_column_data be path column")
       (auto simp: handleSimulate_def split: if_splits sum.splits)
  obtain payloads out where run: "run_simulation_async be (config state d) = (payloads, out)"
    by (cases "run_simulation_async be (config state d)")
  from assms pc d run have "out = Inr r"
    by (cases out) (auto simp: handleSimulate_def split: if_splits sum.splits)
  with pc d run show ?thesis by blast
qed

lemma handleSimulate_success:
  assumes "filePath state = Some path" "analyteName state = Some column"
    "path \<noteq> []" "column \<noteq> []" "listen be = Inr ()"
    "load_column_data be path column = Inr d"
    "run_simulation_async be (config state d) = (payloads, Inr r)"
  shows "results (run_effects (handleSimulate be state) v) = Some r"
  using assms by (simp add: handleSimulate_def run_effects_def results_fold_SetProgress)

text \<open>
  C3. If the simulation invocation \<open>run_simulation_async\<close> rejects, \<open>handleSimulate\<close> never
  calls \<open>setResults\<close>, so the displayed results keep the value they had before. A call
  \<open>setResults r\<close> happens only when the column was loaded and the invocation resolved
  with the result \<open>r\<close>; and when every awaited call resolves, the displayed results are
  that \<open>r\<close>.
\<close>

theorem handleSimulate_results:
  "((\<forall>d. \<exists>payloads e. run_simulation_async be (config state d) = (payloads, Inl e)) \<longrightarrow>
      (\<forall>r. SetResults r \<notin> set (handleSimulate be state)) \<and>
      results (run_effects (handleSimulate be state) v) = results v) \<and>
   (\<forall>r. SetResults r \<in> set (handleSimulate be state) \<longrightarrow>
      (\<exists>path column d payloads.
         filePath state = Some path \<and> analyteName state = Some column \<and>
         load_column_data be path column = Inr d \<and>
         run_simulation_async be (config state d) = (payloads, Inr r))) \<and>
   (\<forall>path column d payloads r.
      filePath state = Some path \<and> analyteName state = Some column \<and>
      path \<noteq> [] \<and> column \<noteq> [] \<and> listen be = Inr () \<and>
      load_column_data be path column = Inr d \<and>
      run_simulation_async be (config state d) = (payloads, Inr r) \<longrightarrow>
      results (run_effects (handleSimulate be state) v) = Some r)"
proof (intro conjI impI allI)
  assume fails: "\<forall>d. \<exists>payloads e. run_simulation_async be (config state d) = (payloads, Inl e)"
  show none: "SetResults r \<notin> set (handleSimulate be state)" for r
  proof
    assume "SetResults r \<in> set (handleSimulate be state)"
    from SetResults_in_handleSimulate [OF this] fails show False
      by (metis Inl_Inr_False snd_conv)
  qed
  then show "results (run_effects (handleSimulate be state) v) = results v"
    unfolding run_effects_def by (intro results_fold_no_SetResults allI)
next
  fix r
  assume "SetResults r \<in> set (handleSimulate be state)"
  then show "\<exists>path column d payloads.
         filePath state = Some path \<and> analyteName state = Some column \<and>
         load_column_data be path column = Inr d \<and>
         run_simulation_async be (config state d) = (payloads, Inr r)"
    by (rule SetResults_in_handleSimulate)
next
  fix path column d payloads r
  assume "filePath state = Some path \<and> analyteName state = Some column \<and>
      path \<noteq> [] \<and> column \<noteq> [] \<and> listen be = Inr () \<and>
      load_column_data be path column = Inr d \<and>
      run_simulation_async be (config state d) = (payloads, Inr r)"
  then show "results (run_effects (handleSimulate be state) v) = Some r"
    by (auto intro: handleSimulate_success)
qed

theorem handleSimulate_results_witness:
  "(\<forall>d. \<exists>payloads e.
      run_simulation_async failing_backend (config loaded_state d) = (payloads, Inl e)) \<and>
   handleSimulate failing_backend loaded_state =
     [SetIsSimulating True, SetProgress (Num 0), SetOriginalData [1, 2, 3], SetProgress (Num 50),
      ConsoleError ''aborted'', Alert ''aborted'', Unlisten, SetIsSimulating False] \<and>
   results (run_effects (handleSimulate failing_backend loaded_state) shown_view) =
     Some empty_result"
proof -
  have fails: "\<forall>d. \<exists>payloads e.
      run_simulation_async failing_backend (config loaded_state d) = (payloads, Inl e)"
    by (simp add: failing_backend_def)
  have trace: "handleSimulate failing_backend loaded_state =
     [SetIsSimulating True, SetProgress (Num 0), SetOriginalData [1, 2, 3], SetProgress (Num 50),
      ConsoleError ''aborted'', Alert ''aborted'', Unlisten, SetIsSimulating False]"
    by (simp add: handleSimulate_def failing_backend_def loaded_state_def)
  from handleSimulate_results [of failing_backend loaded_state shown_view] fails
  have "results (run_effects (handleSimulate failing_backend loaded_state) shown_view) =
     results shown_view"
    by blast
  with fails trace show ?thesis by (simp add: shown_view_def)
qed

text \<open>
  C4. In the configuration sent to the simulation, \<open>cv_i\<close> is present if and only if the
  configured \<open>biologicalVariation\<close> is strictly greater than 0; when present it is that
  value, hence greater than 0.
\<close>

theorem config_cv_i:
  "(cv_i (config state d) \<noteq> None) = js_gt (biologicalVariation state) (Num 0) \<and>
   (\<forall>v. cv_i (config state d) = Some v \<longrightarrow> v = biologicalVariation state \<and> js_gt v (Num 0))"
  by (simp add: config_def)

theorem config_cv_i_witness:
  "cv_i (config (initialState\<lparr>biologicalVariation := Num 5.5\<rparr>) [1, 2, 3]) = Some (Num 5.5) \<and>
   js_gt (Num 5.5) (Num 0) \<and>
   cv_i (config initialState [1, 2, 3]) = None"
  using config_cv_i [of "initialState\<lparr>biologicalVariation := Num 5.5\<rparr>" "[1, 2, 3]"]
    config_cv_i [of initialState "[1, 2, 3]"]
  by (simp add: config_def initialState_def js_gt_def)

subsection \<open>The inputs of the sidebar\<close>

text \<open>
  C5, as the code has it. After a change of a boundary input the stored \<open>maxMu\<close> and
  \<open>maxImprecision\<close> do not exceed 33.3 and the stored \<open>maxBias\<close> does not exceed 100,
  whatever was entered; the stored value is positive when the entered number is. No
  lower bound is enforced: a field without a number stores 0.
\<close>

theorem boundary_inputs_capped:
  "js_le (maxMu (onChange_maxMu val prev)) (Num 33.3) \<and>
   js_le (maxImprecision (onChange_maxImprecision val prev)) (Num 33.3) \<and>
   js_le (maxBias (onChange_maxBias val prev)) (Num 100) \<and>
   (js_gt val (Num 0) \<longrightarrow>
      js_gt (maxMu (onChange_maxMu val prev)) (Num 0) \<and>
      js_gt (maxImprecision (onChange_maxImprecision val prev)) (Num 0) \<and>
      js_gt (maxBias (onChange_maxBias val prev)) (Num 0))"
  by (cases val)
     (auto simp: onChange_maxMu_def onChange_maxImprecision_def onChange_maxBias_def
        Math_min_def isNaN_def js_le_def js_ge_def js_gt_def)

theorem boundary_inputs_capped_witness:
  "js_gt (Num 50) (Num 0) \<and>
   maxMu (onChange_maxMu (Num 50) initialState) = Num 33.3 \<and>
   js_gt (maxMu (onChange_maxMu (Num 50) initialState)) (Num 0) \<and>
   js_gt (maxBias (onChange_maxBias (Num 50) initialState)) (Num 0)"
  using boundary_inputs_capped [of "Num 50" initialState]
  by (simp add: onChange_maxMu_def Math_min_def isNaN_def js_gt_def)

text \<open>The specification asks for a positive override: clearing the field stores 0, and a negative
  entry is stored as it is.\<close>

theorem boundary_inputs_positive_counterexample:
  "maxMu (onChange_maxMu NaN initialState) = Num 0 \<and> \<not> js_gt (Num 0) (Num 0) \<and>
   maxBias (onChange_maxBias (Num (- 5)) initialState) = Num (- 5) \<and>
   \<not> js_gt (Num (- 5)) (Num 0)"
  by (simp add: onChange_maxMu_def onChange_maxBias_def Math_min_def isNaN_def js_gt_def)

text \<open>
  C6, as the code has it. With a dataset of \<open>n \<ge> 1\<close> elements loaded, the sample-size
  input stores an integer that does not exceed \<open>n\<close>; it is at least 1 when the entered
  integer is. No lower bound is enforced: a field without a number stores 0.
\<close>

theorem sampleSize_input_bounded:
  "1 \<le> n \<Longrightarrow> val = NaN \<or> isInteger val \<Longrightarrow>
   \<exists>k. sampleSize (onChange_sampleSize val (Some n) prev) = Some k \<and>
       isInteger k \<and> js_le k (Num (real n)) \<and>
       (js_ge val (Num 1) \<longrightarrow> js_ge k (Num 1))"
  by (cases val)
     (auto simp: onChange_sampleSize_def dataCount_or_def Math_min_def isNaN_def
        js_le_def js_ge_def)

theorem sampleSize_input_bounded_witness:
  "(1::nat) \<le> 10 \<and> isInteger (Num 25) \<and>
   sampleSize (onChange_sampleSize (Num 25) (Some 10) initialState) = Some (Num 10) \<and>
   isInteger (Num 10) \<and> js_le (Num 10) (Num (real (10::nat))) \<and> js_ge (Num 10) (Num 1)"
  using sampleSize_input_bounded [of 10 "Num 25" initialState]
  by (simp add: onChange_sampleSize_def dataCount_or_def Math_min_def isNaN_def
        js_le_def js_ge_def)

text \<open>The specification asks for a sample size of at least 1: with ten elements loaded, clearing
  the field stores 0, and the entry -3 is stored as it is.\<close>

theorem sampleSize_input_counterexample:
  "sampleSize (onChange_sampleSize NaN (Some 10) initialState) = Some (Num 0) \<and>
   \<not> js_ge (Num 0) (Num 1) \<and>
   sampleSize (onChange_sampleSize (Num (- 3)) (Some 10) initialState) = Some (Num (- 3)) \<and>
   \<not> js_ge (Num (- 3)) (Num 1)"
  by (simp add: onChange_sampleSize_def dataCount_or_def Math_min_def isNaN_def js_ge_def)

text \<open>
  C7. On a state whose list of decision limits has between 1 and 7 entries, \<open>addCDL\<close>
  appends an entry exactly when there are fewer than 7 and \<open>removeCDL\<close> drops the last
  entry exactly when there is more than 1, so the number of entries stays between 1 and 7.
\<close>

theorem cdl_count_preserved:
  "1 \<le> length (cdls s) \<Longrightarrow> length (cdls s) \<le> 7 \<Longrightarrow>
   cdls (addCDL s s) = (if length (cdls s) < 7 then cdls s @ [Num 0] else cdls s) \<and>
   cdls (removeCDL s s) = (if length (cdls s) > 1 then butlast (cdls s) else cdls s) \<and>
   1 \<le> length (cdls (addCDL s s)) \<and> length (cdls (addCDL s s)) \<le> 7 \<and>
   1 \<le> length (cdls (removeCDL s s)) \<and> length (cdls (removeCDL s s)) \<le> 7"
  by (auto simp: addCDL_def removeCDL_def)

theorem cdl_count_preserved_witness:
  "1 \<le> length (cdls initialState) \<and> length (cdls initialState) \<le> 7 \<and>
   cdls (addCDL initialState initialState) = [Num 0, Num 0] \<and>
   cdls (removeCDL initialState initialState) = [Num 0]"
  using cdl_count_preserved [of initialState]
  by (simp add: initialState_def addCDL_def removeCDL_def)

subsection \<open>The APS limits table\<close>

lemmas eval_defs = getLimit_def validPoints_def grid_point_def metric_pct_def overall_def
  nullish0_def sublevel_def at_index_def js_ge_def js_gt_def isNaN_def Math_max_of_def
  Math_min_of_def Math_max_def Math_min_def toFixed1_def

lemma Math_max_Num [simp]: "Math_max (Num a) (Num b) = Num (max a b)"
  by (simp add: Math_max_def isNaN_def max_def)

lemma Math_min_Num [simp]: "Math_min (Num a) (Num b) = Num (min a b)"
  by (auto simp: Math_min_def isNaN_def min_def)

lemma Math_max_NegInfinity [simp]: "Math_max NegInfinity (Num b) = Num b"
  by (simp add: Math_max_def isNaN_def)

lemma Math_min_PosInfinity [simp]: "Math_min PosInfinity (Num b) = Num b"
  by (simp add: Math_min_def isNaN_def)

lemma fold_Math_max_Num:
  "fold (\<lambda>x acc. Math_max acc x) (map Num xs) (Num a) = Num (fold max xs a)"
  by (induction xs arbitrary: a) (simp_all add: max.commute)

lemma fold_Math_min_Num:
  "fold (\<lambda>x acc. Math_min acc x) (map Num xs) (Num a) = Num (fold min xs a)"
  by (induction xs arbitrary: a) (simp_all add: min.commute)

lemma Math_max_of_Num:
  assumes "xs \<noteq> []"
  shows "Math_max_of (map Num xs) = Num (Max (set xs))"
proof -
  from assms obtain a as where xs: "xs = a # as"
    by (cases xs) auto
  have "Math_max_of (map Num (a # as)) = Num (fold max as a)"
    by (simp add: Math_max_of_def fold_Math_max_Num)
  also have "\<dots> = Num (Max (set (a # as)))"
    by (simp only: Max.set_eq_fold)
  finally show ?thesis by (simp only: xs)
qed

lemma Math_min_of_Num:
  assumes "xs \<noteq> []"
  shows "Math_min_of (map Num xs) = Num (Min (set xs))"
proof -
  from assms obtain a as where xs: "xs = a # as"
    by (cases xs) auto
  have "Math_min_of (map Num (a # as)) = Num (fold min as a)"
    by (simp add: Math_min_of_def fold_Math_min_Num)
  also have "\<dots> = Num (Min (set (a # as)))"
    by (simp only: Min.set_eq_fold)
  finally show ?thesis by (simp only: xs)
qed

lemma Math_max_of_image:
  assumes "ps \<noteq> []"
  shows "Math_max_of (map (\<lambda>d. Num (f d)) ps) = Num (Max (f ` set ps))"
proof -
  have "map f ps \<noteq> []" using assms by simp
  then show ?thesis using Math_max_of_Num [of "map f ps"] by (simp add: comp_def)
qed

lemma Math_min_of_image:
  assumes "ps \<noteq> []"
  shows "Math_min_of (map (\<lambda>d. Num (f d)) ps) = Num (Min (f ` set ps))"
proof -
  have "map f ps \<noteq> []" using assms by simp
  then show ?thesis using Math_min_of_Num [of "map f ps"] by (simp add: comp_def)
qed

lemma kept_validPoints:
  "kept r metric levelIndex t = set (validPoints r metric levelIndex t)"
  by (auto simp: kept_def validPoints_def)

lemma getLimit_extremum:
  assumes "validPoints r metric levelIndex t \<noteq> []"
  shows "getLimit r metric levelIndex t type =
     (if not_available type (extremum type (set (validPoints r metric levelIndex t))) then ''NA''
      else toFixed1 (Num (extremum type (set (validPoints r metric levelIndex t)))))"
  using assms
  by (cases type)
     (simp_all add: getLimit_def Math_max_of_image Math_min_of_image extremum_def
        not_available_def js_gt_def)

lemma toFixed1_not_NA: "toFixed1 x \<noteq> ''NA''"
proof (cases x)
  case (Num r)
  have "CHR ''.'' \<in> set (toFixed1 (Num r))"
    by (simp add: toFixed1_def Let_def)
  then show ?thesis using Num by auto
qed (simp_all add: toFixed1_def)

text \<open>
  C1, as the code has it. \<open>getLimit\<close> is a filter followed by an extremum over the grid:
  it keeps exactly the grid points whose metric (overall, or at the sublevel index, a
  missing entry counting as 0) times 100 is at least the threshold, returns \<open>NO\<close> when
  none is kept, and otherwise takes the maximum of \<open>mu * 100\<close>, the maximum of
  \<open>bias * 100\<close> or the minimum of \<open>bias * 100\<close> over the kept points; it returns \<open>NA\<close> when
  that extremum is beyond the cutoff of 33, and the extremum with one decimal otherwise.
\<close>

theorem getLimit_filter_then_extremum:
  "getLimit r metric levelIndex t type = limit_with_cutoff r metric levelIndex t type"
proof (cases "validPoints r metric levelIndex t = []")
  case True
  then show ?thesis
    by (simp add: getLimit_def limit_with_cutoff_def kept_validPoints)
next
  case False
  then show ?thesis
    by (simp add: getLimit_extremum limit_with_cutoff_def kept_validPoints)
qed

theorem getLimit_filter_then_extremum_witness:
  "getLimit mu_sweep Agreement None (Num 95) Mu = ''12.0'' \<and>
   limit_with_cutoff mu_sweep Agreement None (Num 95) Mu = ''12.0'' \<and>
   getLimit mu_sweep Agreement (Some 0) (Num 99) Bias_neg = ''0.0'' \<and>
   getLimit mu_sweep Agreement (Some 1) (Num 90) Mu = ''NO''"
  using getLimit_filter_then_extremum [of mu_sweep Agreement None "Num 95" Mu]
  by (simp add: eval_defs mu_sweep_def)

text \<open>Without the cutoff the lookup is not what the table shows: on a sweep that still
  agrees to 92 % at the default maximum of 33.1 %, the extremum is 33.1 and the table
  shows \<open>NA\<close>.\<close>

theorem getLimit_cutoff_counterexample:
  "getLimit mu_sweep Agreement None (Num 90) Mu = ''NA'' \<and>
   limit_as_specified mu_sweep Agreement None (Num 90) Mu = ''33.1'' \<and>
   getLimit mu_sweep Agreement None (Num 90) Mu \<noteq>
     limit_as_specified mu_sweep Agreement None (Num 90) Mu"
  by (simp add: limit_as_specified_def kept_validPoints extremum_def eval_defs mu_sweep_def)

text \<open>
  C9, as the code has it. When a grid point is kept, \<open>getLimit\<close> shows \<open>NA\<close> exactly when
  the maximum of \<open>mu * 100\<close> is above 33 (measurement-uncertainty column), when the
  maximum of \<open>bias * 100\<close> is above 33 (positive-bias column), and when the minimum of
  \<open>bias * 100\<close> is above 33 in absolute value (negative-bias column). So a positive-bias
  limit in (33, 100] and a negative-bias limit in [-100, -33), both legal biases, are
  shown as \<open>NA\<close>. Only the negative-bias column takes the absolute value.
\<close>

theorem getLimit_not_available:
  "validPoints r metric levelIndex t \<noteq> [] \<Longrightarrow>
   (getLimit r metric levelIndex t Mu = ''NA'') =
     (33 < Max ((\<lambda>d. mu d * 100) ` set (validPoints r metric levelIndex t))) \<and>
   (getLimit r metric levelIndex t Bias_pos = ''NA'') =
     (33 < Max ((\<lambda>d. bias d * 100) ` set (validPoints r metric levelIndex t))) \<and>
   (getLimit r metric levelIndex t Bias_neg = ''NA'') =
     (33 < \<bar>Min ((\<lambda>d. bias d * 100) ` set (validPoints r metric levelIndex t))\<bar>)"
  by (simp add: getLimit_extremum not_available_def extremum_def toFixed1_not_NA)

theorem getLimit_not_available_witness:
  "validPoints bias_sweep Agreement None (Num 90) \<noteq> [] \<and>
   Max ((\<lambda>d. bias d * 100) ` set (validPoints bias_sweep Agreement None (Num 90))) = 35 \<and>
   Min ((\<lambda>d. bias d * 100) ` set (validPoints bias_sweep Agreement None (Num 90))) = - 35 \<and>
   getLimit bias_sweep Agreement None (Num 90) Bias_pos = ''NA'' \<and>
   getLimit bias_sweep Agreement None (Num 90) Bias_neg = ''NA'' \<and>
   getLimit bias_sweep Agreement None (Num 90) Mu = ''0.0''"
proof -
  have v: "validPoints bias_sweep Agreement None (Num 90) =
      [grid_point 0 (- 0.35) 0.93, grid_point 0 0 1, grid_point 0 0.35 0.94]"
    by (simp add: eval_defs bias_sweep_def)
  have ne: "validPoints bias_sweep Agreement None (Num 90) \<noteq> []"
    by (simp add: v)
  have mx: "Max ((\<lambda>d. bias d * 100) ` set (validPoints bias_sweep Agreement None (Num 90))) = 35"
    by (simp add: v grid_point_def)
  have mn: "Min ((\<lambda>d. bias d * 100) ` set (validPoints bias_sweep Agreement None (Num 90))) = - 35"
    by (simp add: v grid_point_def)
  have m: "getLimit bias_sweep Agreement None (Num 90) Mu = ''0.0''"
    by (simp add: eval_defs bias_sweep_def)
  from getLimit_not_available [OF ne] mx mn m ne show ?thesis by simp
qed

text \<open>The cutoff is not on the absolute value in every column: when the only kept point
  has a bias of -40 %, the positive-bias column shows -40.0, not \<open>NA\<close>.\<close>

theorem getLimit_absolute_value_counterexample:
  "validPoints skewed_sweep Agreement None (Num 90) = [grid_point 0 (- 0.4) 0.95] \<and>
   bias (grid_point 0 (- 0.4) 0.95) * 100 = - 40 \<and>
   (33::real) < \<bar>- 40\<bar> \<and>
   getLimit skewed_sweep Agreement None (Num 90) Bias_pos = ''-40.0'' \<and>
   getLimit skewed_sweep Agreement None (Num 90) Bias_pos \<noteq> ''NA''"
  by (simp add: eval_defs skewed_sweep_def)

subsection \<open>The plots\<close>

text \<open>
  C2. The colour of a grid point is its bucket, checked from the top: optimal if and
  only if the percentage is at least \<open>opt\<close>, else desirable if and only if it is at least
  \<open>des\<close>, else minimum if and only if it is at least \<open>min\<close>, else below-min. With the
  thresholds 90, 95 and 99, a grid point with agreement 0.80 is in the below-min bucket.
\<close>

theorem color_buckets:
  "(color th p v = bucket_color p Optimal) = js_ge (Num v) (opt th) \<and>
   (color th p v = bucket_color p Desirable) =
      (\<not> js_ge (Num v) (opt th) \<and> js_ge (Num v) (des th)) \<and>
   (color th p v = bucket_color p Minimum) =
      (\<not> js_ge (Num v) (opt th) \<and> \<not> js_ge (Num v) (des th) \<and> js_ge (Num v) (min_thr th)) \<and>
   (color th p v = bucket_color p Below_min) =
      (\<not> js_ge (Num v) (opt th) \<and> \<not> js_ge (Num v) (des th) \<and>
       \<not> js_ge (Num v) (min_thr th)) \<and>
   colors \<lparr>mu_data = [grid_point 0.2 0.1 0.80], names = [''5'']\<rparr>
      \<lparr>min_thr = Num 90, des = Num 95, opt = Num 99\<rparr> Agreement None p =
     [bucket_color p Below_min]"
  by (simp add: color_def colors_def z_pct_def overall_def grid_point_def bucket_color_def
        js_ge_def isNaN_def)

lemma set_indices: "set (indices cats cat) = {k. k < length cats \<and> cats ! k = cat}"
  by (auto simp: indices_def)

lemma category_in_uniqueCategories: "category th i d \<in> set uniqueCategories"
  by (simp add: category_def uniqueCategories_def Let_def)

text \<open>
  C10. In the combined plot every grid point gets exactly one of the four categories:
  \<open>Sensitivity\<close> if and only if its sublevel sensitivity times 100 is at least the
  minimum threshold and its sublevel specificity times 100 is below it, \<open>Specificity\<close>
  the other way round, \<open>Sensitivity & Specificity\<close> if and only if both are at least
  the threshold, \<open>Other\<close> if and only if neither is; and every index of the grid is drawn
  by exactly one of the four traces.
\<close>

theorem category_exclusive_exhaustive:
  "category th i d \<in> set uniqueCategories \<and> distinct uniqueCategories \<and>
   (category th i d = ''Sensitivity'') =
     (js_ge (Num (nullish0 (at_index (sublevel_sensitivity d) i) * 100)) (min_thr th) \<and>
      js_lt (Num (nullish0 (at_index (sublevel_specificity d) i) * 100)) (min_thr th)) \<and>
   (category th i d = ''Specificity'') =
     (js_ge (Num (nullish0 (at_index (sublevel_specificity d) i) * 100)) (min_thr th) \<and>
      js_lt (Num (nullish0 (at_index (sublevel_sensitivity d) i) * 100)) (min_thr th)) \<and>
   (category th i d = ''Sensitivity & Specificity'') =
     (js_ge (Num (nullish0 (at_index (sublevel_sensitivity d) i) * 100)) (min_thr th) \<and>
      js_ge (Num (nullish0 (at_index (sublevel_specificity d) i) * 100)) (min_thr th)) \<and>
   (category th i d = ''Other'') =
     (\<not> js_ge (Num (nullish0 (at_index (sublevel_sensitivity d) i) * 100)) (min_thr th) \<and>
      \<not> js_ge (Num (nullish0 (at_index (sublevel_specificity d) i) * 100)) (min_thr th)) \<and>
   (\<forall>k < length (mu_data r).
      \<exists>!cat. cat \<in> set uniqueCategories \<and> k \<in> set (indices (categories r th i) cat))"
proof -
  have traces: "\<forall>k < length (mu_data r).
      \<exists>!cat. cat \<in> set uniqueCategories \<and> k \<in> set (indices (categories r th i) cat)"
  proof (intro allI impI)
    fix k
    assume k: "k < length (mu_data r)"
    then have "categories r th i ! k = category th i (mu_data r ! k)"
      by (simp add: categories_def)
    with k show "\<exists>!cat. cat \<in> set uniqueCategories \<and> k \<in> set (indices (categories r th i) cat)"
      by (auto simp: set_indices categories_def category_in_uniqueCategories)
  qed
  have cats: "category th i d \<in> set uniqueCategories \<and> distinct uniqueCategories \<and>
   (category th i d = ''Sensitivity'') =
     (js_ge (Num (nullish0 (at_index (sublevel_sensitivity d) i) * 100)) (min_thr th) \<and>
      js_lt (Num (nullish0 (at_index (sublevel_specificity d) i) * 100)) (min_thr th)) \<and>
   (category th i d = ''Specificity'') =
     (js_ge (Num (nullish0 (at_index (sublevel_specificity d) i) * 100)) (min_thr th) \<and>
      js_lt (Num (nullish0 (at_index (sublevel_sensitivity d) i) * 100)) (min_thr th)) \<and>
   (category th i d = ''Sensitivity & Specificity'') =
     (js_ge (Num (nullish0 (at_index (sublevel_sensitivity d) i) * 100)) (min_thr th) \<and>
      js_ge (Num (nullish0 (at_index (sublevel_specificity d) i) * 100)) (min_thr th)) \<and>
   (category th i d = ''Other'') =
     (\<not> js_ge (Num (nullish0 (at_index (sublevel_sensitivity d) i) * 100)) (min_thr th) \<and>
      \<not> js_ge (Num (nullish0 (at_index (sublevel_specificity d) i) * 100)) (min_thr th))"
    by (cases "min_thr th")
       (auto simp: category_def uniqueCategories_def Let_def js_ge_def isNaN_def)
  from cats traces show ?thesis by (simp only: simp_thms)
qed

theorem category_exclusive_exhaustive_witness:
  "categories combined_grid \<lparr>min_thr = Num 90, des = Num 95, opt = Num 99\<rparr> 0 =
     [''Sensitivity'', ''Sensitivity & Specificity'', ''Specificity'', ''Other''] \<and>
   (2::nat) < length (mu_data combined_grid) \<and>
   indices (categories combined_grid \<lparr>min_thr = Num 90, des = Num 95, opt = Num 99\<rparr> 0)
     ''Specificity'' = [2] \<and>
   (\<exists>!cat. cat \<in> set uniqueCategories \<and>
      2 \<in> set (indices (categories combined_grid
        \<lparr>min_thr = Num 90, des = Num 95, opt = Num 99\<rparr> 0) cat))"
proof -
  have c: "categories combined_grid \<lparr>min_thr = Num 90, des = Num 95, opt = Num 99\<rparr> 0 =
     [''Sensitivity'', ''Sensitivity & Specificity'', ''Specificity'', ''Other'']"
    by (simp add: categories_def category_def combined_grid_def level_point_def at_index_def
          nullish0_def js_ge_def isNaN_def)
  have l: "(2::nat) < length (mu_data combined_grid)"
    by (simp add: combined_grid_def)
  have i: "indices [''Sensitivity'', ''Sensitivity & Specificity'', ''Specificity'', ''Other'']
     ''Specificity'' = [2]"
    by (simp add: indices_def upt_rec)
  from category_exclusive_exhaustive
     [of "\<lparr>min_thr = Num 90, des = Num 95, opt = Num 99\<rparr>" 0 "level_point 0 0.99 0.98"
        combined_grid] l
  have "\<exists>!cat. cat \<in> set uniqueCategories \<and>
      2 \<in> set (indices (categories combined_grid
        \<lparr>min_thr = Num 90, des = Num 95, opt = Num 99\<rparr> 0) cat)"
    by blast
  with c l i show ?thesis by simp
qed

end
